theory Spec2Isabelle
  imports Main "HOL-Library.AList"
begin

section \<open>libearth.parser.rss2: the RSS 2.0 parser\<close>

text \<open>
  A shallow embedding of \<^verbatim>\<open>libearth/parser/rss2.py\<close>. The module maps an
  RSS 2.0 document tree to an Atom-like feed object. Exceptions are values of the
  type \<open>error\<close>: a function that can raise returns \<open>error + 'a\<close>, with \<open>Inl\<close> the
  exception. Objects whose attributes the parser sets by name (\<^verbatim>\<open>Feed\<close>,
  \<^verbatim>\<open>Entry\<close>) are attribute dictionaries; the records the module builds with
  keyword arguments (\<^verbatim>\<open>Link\<close>, \<^verbatim>\<open>Category\<close>,
  \<^verbatim>\<open>Generator\<close>) are datatypes with one field per keyword.
\<close>

subsection \<open>Exceptions\<close>

text \<open>
  \<open>AttributeError\<close>, \<open>ValueError\<close> and \<open>TypeError\<close> are Python's own; the other three
  are the failure kinds of the collaborators (tree parser, network fetcher, format
  detector).
\<close>

datatype error =
  AttributeError | ValueError | TypeError | MalformedDocument | Fetch | UnknownFormat

subsection \<open>The document tree\<close>

text \<open>
  An element of the parsed tree: local tag name, namespace URI (\<open>None\<close> for an element
  without a namespace), text content (\<open>None\<close> when the element has no text, as
  \<^verbatim>\<open>element.text\<close> is), attributes and ordered children.
\<close>

datatype element =
  Element (tag: string) (namespace: "string option") (text': "string option")
    (attrib: "(string \<times> string) list") (children: "element list")

text \<open>\<^verbatim>\<open>element.get(key)\<close> and \<^verbatim>\<open>element.get(key, default)\<close>.\<close>

definition get :: "element \<Rightarrow> string \<Rightarrow> string option" where
  "get element key = map_of (attrib element) key"

definition get_default :: "element \<Rightarrow> string \<Rightarrow> string \<Rightarrow> string" where
  "get_default element key dflt = (case get element key of None \<Rightarrow> dflt | Some v \<Rightarrow> v)"

text \<open>
  \<^verbatim>\<open>element.findall(name)\<close> and \<^verbatim>\<open>element.find(name)\<close> for a plain
  name: the direct children with that tag and no namespace, in document order, and the
  first of them (\<open>None\<close> when there is none).
\<close>

definition findall :: "element \<Rightarrow> string \<Rightarrow> element list" where
  "findall element name =
     filter (\<lambda>child. tag child = name \<and> namespace child = None) (children element)"

definition find_el :: "element \<Rightarrow> string \<Rightarrow> element option" where
  "find_el element name = (case findall element name of [] \<Rightarrow> None | child # _ \<Rightarrow> Some child)"

subsection \<open>The session\<close>

text \<open>\<^verbatim>\<open>RSSSession(feed_url, default_tz_info)\<close>; a time zone is its UTC offset.\<close>

record session =
  feed_url :: "string option"
  default_tz_info :: int

subsection \<open>Values of the feed model\<close>

text \<open>
  \<^verbatim>\<open>Link(uri=..., relation=..., mimetype=...)\<close>,
  \<^verbatim>\<open>Category(term=..., scheme_uri=...)\<close> and
  \<^verbatim>\<open>Generator(uri=..., value=...)\<close>: a keyword that the call leaves out is
  \<open>None\<close>, and so is one given \<^verbatim>\<open>None\<close>.
\<close>

datatype link =
  Link (uri: "string option") (relation: "string option") (mimetype: "string option")

datatype category =
  Category (term': "string option") (scheme_uri: "string option")

datatype generator =
  Generator (generator_uri: "string option") (generator_value: "string option")

text \<open>
  A value a handler returns and an attribute holds: a string, a timestamp (an absolute
  time), a record above, a value built by one of the parsers of
  \<^verbatim>\<open>rss_base\<close> that this module does not look into (text, person,
  content), a list, or an object. An object has its class name and its attribute
  dictionary; an attribute that was never assigned is not in the dictionary.
\<close>

datatype val =
    VStr string
  | VTime int
  | VOpaque string
  | VCategory category
  | VLink link
  | VGenerator generator
  | VList "val list"
  | VObject entity
and entity =
  Entity (class_name: string) (attrs: "(string \<times> val) list")

definition getattr :: "entity \<Rightarrow> string \<Rightarrow> val option" where
  "getattr obj name = map_of (attrs obj) name"

definition setattr :: "entity \<Rightarrow> string \<Rightarrow> val \<Rightarrow> entity" where
  "setattr obj name v = Entity (class_name obj) (AList.update name v (attrs obj))"

text \<open>\<^verbatim>\<open>Feed()\<close> and \<^verbatim>\<open>Entry()\<close>: fresh objects, nothing assigned.\<close>

definition Feed :: entity where
  "Feed = Entity ''Feed'' []"

definition Entry :: entity where
  "Entry = Entity ''Entry'' []"

subsection \<open>Handlers and collaborators\<close>

text \<open>
  A handler takes an element and the session and returns a value and a session, or
  raises; the value \<open>None\<close> is Python's \<^verbatim>\<open>None\<close>.
\<close>

type_synonym handler = "element \<Rightarrow> session \<Rightarrow> error + (val option \<times> session)"

text \<open>The result of a parse engine: \<^verbatim>\<open>(feed, crawler hint)\<close>, or an exception.\<close>

type_synonym parse_result = "error + (entity \<times> val option)"

text \<open>
  What \<^verbatim>\<open>get_format\<close> returns: this engine (\<^verbatim>\<open>parse_rss2\<close>) or
  the parser of another format, called as \<^verbatim>\<open>parser(xml, url, parse_entry)\<close>.
\<close>

datatype engine =
  RSS2 | Sibling "string \<Rightarrow> string option \<Rightarrow> bool \<Rightarrow> parse_result"

text \<open>
  The functions and constants the module imports from the standard library and from
  modules that are not part of it. They are parameters of the model:
  \<^item> \<open>fromstring\<close>, \<open>normalize_xml_encoding\<close>: the tree parser and the encoding normaliser;
  \<^item> \<open>guess_default_tzinfo\<close>: the time zone guesser;
  \<^item> \<open>datetime_parser\<close>, \<open>person_parser\<close>, \<open>text_parser\<close>, \<open>subtitle_parser\<close>,
    \<open>link_parser\<close>, \<open>content_parser\<close>: the handlers of \<^verbatim>\<open>rss_base\<close>;
  \<^item> \<open>ATOM_XMLNS_SET\<close>, \<open>CONTENT_XMLNS\<close>: the namespace constants;
  \<^item> \<open>urlparse_scheme\<close>: \<^verbatim>\<open>urlparse.urlparse(text).scheme\<close> of the standard
    library, which may raise;
  \<^item> \<open>get_format\<close>: the format detector.
\<close>

record collaborators =
  fromstring :: "string \<Rightarrow> error + element"
  normalize_xml_encoding :: "string \<Rightarrow> string"
  guess_default_tzinfo :: "element \<Rightarrow> string option \<Rightarrow> int"
  datetime_parser :: handler
  person_parser :: handler
  text_parser :: handler
  subtitle_parser :: handler
  link_parser :: handler
  content_parser :: handler
  ATOM_XMLNS_SET :: "string list"
  CONTENT_XMLNS :: string
  urlparse_scheme :: "string option \<Rightarrow> error + string"
  get_format :: "string \<Rightarrow> error + engine"

text \<open>
  What an invocation reads from outside the program: the clock (\<open>now\<close>, the time of the
  invocation) and the network (\<open>open_url\<close>: \<^verbatim>\<open>open_url(url).read()\<close>, the
  bytes behind a URL, or a failure).
\<close>

record world =
  now :: int
  open_url :: "string option \<Rightarrow> error + string"

subsection \<open>GUID\_PATTERN\<close>

text \<open>
  \<^verbatim>\<open>^(\{{0,1}([0-9a-fA-F]){8}-([0-9a-fA-F]){4}-([0-9a-fA-F]){4}-([0-9a-fA-F]){4}-([0-9a-fA-F]){12}\}{0,1})$\<close>
  matched with \<^verbatim>\<open>re.match\<close>. The matcher reads the pattern from left to
  right; each function consumes a prefix and returns the rest, or \<open>None\<close> when the
  prefix does not match. An optional brace is consumed when it is there: skipping a
  brace that is there never leads to a match, since neither a hexadecimal digit nor the
  end of the string can match the brace. Without \<^verbatim>\<open>re.MULTILINE\<close>,
  \<^verbatim>\<open>$\<close> matches at the end of the string and before a newline that ends
  the string.
\<close>

definition hexdigit :: "char \<Rightarrow> bool" where
  "hexdigit c = (c \<in> set ''0123456789abcdefABCDEF'')"

fun hexdigits :: "nat \<Rightarrow> string \<Rightarrow> string option" where
  "hexdigits 0 s = Some s"
| "hexdigits (Suc n) [] = None"
| "hexdigits (Suc n) (c # s) = (if hexdigit c then hexdigits n s else None)"

fun literal :: "char \<Rightarrow> string \<Rightarrow> string option" where
  "literal c [] = None"
| "literal c (x # s) = (if x = c then Some s else None)"

fun optional :: "char \<Rightarrow> string \<Rightarrow> string" where
  "optional c [] = []"
| "optional c (x # s) = (if x = c then s else x # s)"

definition at_end :: "string \<Rightarrow> bool" where
  "at_end s = (s = [] \<or> s = [CHR 0x0A])"

definition uuid_body :: "string \<Rightarrow> string option" where
  "uuid_body s =
     Option.bind (hexdigits 8 s) (\<lambda>s.
     Option.bind (literal CHR ''-'' s) (\<lambda>s.
     Option.bind (hexdigits 4 s) (\<lambda>s.
     Option.bind (literal CHR ''-'' s) (\<lambda>s.
     Option.bind (hexdigits 4 s) (\<lambda>s.
     Option.bind (literal CHR ''-'' s) (\<lambda>s.
     Option.bind (hexdigits 4 s) (\<lambda>s.
     Option.bind (literal CHR ''-'' s) (\<lambda>s.
     hexdigits 12 s))))))))"

definition GUID_PATTERN_match :: "string \<Rightarrow> bool" where
  "GUID_PATTERN_match s =
     (case uuid_body (optional CHR ''{'' s) of
        None \<Rightarrow> False
      | Some rest \<Rightarrow> at_end (optional CHR ''}'' rest))"

subsection \<open>The handlers of the module\<close>

text \<open>\<^verbatim>\<open>str.startswith\<close>.\<close>

definition startswith :: "string \<Rightarrow> string \<Rightarrow> bool" where
  "startswith s p = (take (length p) s = p)"

definition parse_channel :: "element \<Rightarrow> session \<Rightarrow> error + (entity \<times> session)" where
  "parse_channel element session = Inr (Feed, session)"

definition parse_item :: "element \<Rightarrow> session \<Rightarrow> error + (entity \<times> session)" where
  "parse_item element session = Inr (Entry, session)"

definition parse_datetime :: "collaborators \<Rightarrow> handler" where
  "parse_datetime c element session = datetime_parser c element session"

definition parse_person :: "collaborators \<Rightarrow> handler" where
  "parse_person c element session = person_parser c element session"

definition parse_category :: handler where
  "parse_category element session =
     Inr (Some (VCategory (Category (text' element) (map_of (attrib element) ''domain''))),
          session)"

definition parse_text :: "collaborators \<Rightarrow> handler" where
  "parse_text c element session = text_parser c element session"

definition parse_subtitle :: "collaborators \<Rightarrow> handler" where
  "parse_subtitle c element session = subtitle_parser c element session"

definition parse_atom_link :: handler where
  "parse_atom_link element session =
     (let link = Link (get element ''href'') (Some (get_default element ''rel'' ''alternate''))
                   (get element ''type'')
      in Inr (Some (VLink link), session))"

definition parse_link :: "collaborators \<Rightarrow> handler" where
  "parse_link c element session = link_parser c element session"

text \<open>
  \<^verbatim>\<open>parse_generator\<close>: the \<^verbatim>\<open>try\<close> block catches
  \<^verbatim>\<open>ValueError\<close> and nothing else, so any other exception of
  \<^verbatim>\<open>urlparse\<close> leaves the handler. A \<^verbatim>\<open>Generator\<close> object is
  true in \<^verbatim>\<open>generator or ...\<close>.
\<close>

definition parse_generator :: "collaborators \<Rightarrow> handler" where
  "parse_generator c element session =
     (case urlparse_scheme c (text' element) of
        Inl ValueError \<Rightarrow> Inr (Some (VGenerator (Generator None (text' element))), session)
      | Inl e \<Rightarrow> Inl e
      | Inr scheme \<Rightarrow>
          if scheme \<in> set [''http'', ''https'']
          then Inr (Some (VGenerator (Generator (text' element) None)), session)
          else Inr (Some (VGenerator (Generator None (text' element))), session))"

definition parse_enclosure :: handler where
  "parse_enclosure element session =
     Inr (Some (VLink (Link (get element ''url'') (Some ''enclosure'') (get element ''type''))),
          session)"

text \<open>
  \<^verbatim>\<open>parse_source\<close>: fetch the URL, detect the format, and run the parser the
  detector returns with \<^verbatim>\<open>parse_entry=False\<close>. \<open>self\<close> is this engine,
  \<^verbatim>\<open>parse_rss2\<close>, for the case that the detector returns it. No exception is
  caught.
\<close>

definition parse_source ::
  "(string \<Rightarrow> string option \<Rightarrow> bool \<Rightarrow> parse_result) \<Rightarrow> collaborators \<Rightarrow> world \<Rightarrow> handler" where
  "parse_source self c w element session =
     (let url = get element ''url'' in
      case open_url w url of
        Inl e \<Rightarrow> Inl e
      | Inr xml \<Rightarrow>
          (case get_format c xml of
             Inl e \<Rightarrow> Inl e
           | Inr parser \<Rightarrow>
               (case (case parser of RSS2 \<Rightarrow> self xml url False | Sibling p \<Rightarrow> p xml url False) of
                  Inl e \<Rightarrow> Inl e
                | Inr (source, _) \<Rightarrow> Inr (Some (VObject source), session))))"

definition parse_comments :: handler where
  "parse_comments element session =
     Inr (Some (VLink (Link (text' element) (Some ''discussion'') None)), session)"

definition parse_content :: "collaborators \<Rightarrow> handler" where
  "parse_content c element session = content_parser c element session"

text \<open>
  \<^verbatim>\<open>parse_guid\<close>: \<^verbatim>\<open>element.text.startswith\<close> raises
  \<^verbatim>\<open>AttributeError\<close> when the text is \<^verbatim>\<open>None\<close>.
\<close>

definition parse_guid :: handler where
  "parse_guid element session =
     (let isPermalink = get element ''isPermalink'' in
      case text' element of
        None \<Rightarrow> Inl AttributeError
      | Some t \<Rightarrow>
          if startswith t ''http://'' \<and> isPermalink \<noteq> Some ''False''
          then Inr (Some (VStr t), session)
          else if GUID_PATTERN_match t
          then Inr (Some (VStr (''urn:uuid:'' @ t)), session)
          else Inr (None, session))"

subsection \<open>The path registry and the field aggregator\<close>

text \<open>
  Modelled from the spec: the descriptors of the feed model's classes, which say
  whether an attribute holds one value or a list, are not part of this module. Section
  3 of the specification names the ordered-collection fields: authors, contributors,
  categories and links; every other field is a scalar.
\<close>

definition multiple :: "string \<Rightarrow> bool" where
  "multiple name = (name \<in> set [''authors'', ''contributors'', ''categories'', ''links''])"

text \<open>The list an attribute holds; an attribute never assigned holds the empty list.\<close>

definition collection :: "entity \<Rightarrow> string \<Rightarrow> val list" where
  "collection obj name = (case getattr obj name of Some (VList vs) \<Rightarrow> vs | _ \<Rightarrow> [])"

text \<open>
  Modelled from the spec: the field aggregator of \<^verbatim>\<open>ParserBase\<close>, which is
  not part of this module (section 4.2). A scalar field is overwritten, a value for a
  collection field is appended, and \<^verbatim>\<open>None\<close> changes nothing. It never
  raises.
\<close>

definition apply_field :: "entity \<Rightarrow> string \<Rightarrow> val option \<Rightarrow> entity" where
  "apply_field obj name v =
     (case v of
        None \<Rightarrow> obj
      | Some x \<Rightarrow>
          if multiple name then setattr obj name (VList (collection obj name @ [x]))
          else setattr obj name x)"

text \<open>
  A path registration, as a decorator \<^verbatim>\<open>@parser.path(element_name,
  namespace_set, attr_name)\<close> over a handler records it. \<open>path\<close> is the decorator:
  the attribute name is the element name unless one is given.
\<close>

record registration =
  local_name :: string
  namespace_set :: "string list option"
  attr_name :: string
  handler :: handler

definition path :: "string \<Rightarrow> string list option \<Rightarrow> string option \<Rightarrow> handler \<Rightarrow> registration" where
  "path element_name nss attr h =
     \<lparr>local_name = element_name, namespace_set = nss,
      attr_name = (case attr of None \<Rightarrow> element_name | Some a \<Rightarrow> a), handler = h\<rparr>"

text \<open>
  Modelled from the spec: the dispatch of \<^verbatim>\<open>ParserBase\<close>, which is not part
  of this module (section 4.1). A registration matches a child when the local names are
  equal and the namespace fits: a registration without a namespace set matches an
  element without a namespace (the tree gives an element of the document's default
  namespace as one without a namespace), a registration with a set matches an element
  whose namespace is a member. Every matching registration fires, in registration order;
  the handler gets the child and the session, its value goes through the field
  aggregator, and the session it returns is the session of what follows. The children
  are visited in document order. An exception of a handler is not caught.
\<close>

definition matches :: "registration \<Rightarrow> element \<Rightarrow> bool" where
  "matches r child =
     (local_name r = tag child \<and>
      (case namespace_set r of
         None \<Rightarrow> namespace child = None
       | Some nss \<Rightarrow> (case namespace child of None \<Rightarrow> False | Some ns \<Rightarrow> ns \<in> set nss)))"

fun dispatch_child ::
  "registration list \<Rightarrow> element \<Rightarrow> entity \<times> session \<Rightarrow> error + (entity \<times> session)" where
  "dispatch_child [] child st = Inr st"
| "dispatch_child (r # rs) child (obj, session) =
     (if matches r child
      then (case handler r child session of
              Inl e \<Rightarrow> Inl e
            | Inr (v, session') \<Rightarrow> dispatch_child rs child (apply_field obj (attr_name r) v, session'))
      else dispatch_child rs child (obj, session))"

fun dispatch_children ::
  "registration list \<Rightarrow> element list \<Rightarrow> entity \<times> session \<Rightarrow> error + (entity \<times> session)" where
  "dispatch_children regs [] st = Inr st"
| "dispatch_children regs (child # rest) st =
     (case dispatch_child regs child st of
        Inl e \<Rightarrow> Inl e
      | Inr st' \<Rightarrow> dispatch_children regs rest st')"

text \<open>
  Modelled from the spec: calling a parser that \<^verbatim>\<open>path\<close> decorated, as
  \<^verbatim>\<open>parse_channel(channel, session)\<close> does. The decorated function makes
  the entity, the children of the element are dispatched over the registrations made
  on the parser, and the entity is what the call returns. The element
  \<^verbatim>\<open>None\<close> has no children to visit: the call raises.
\<close>

definition ParserBase_call ::
  "(element \<Rightarrow> session \<Rightarrow> error + (entity \<times> session)) \<Rightarrow> registration list \<Rightarrow>
     element option \<Rightarrow> session \<Rightarrow> error + entity" where
  "ParserBase_call parser regs root_element session =
     (case root_element of
        None \<Rightarrow> Inl AttributeError
      | Some element \<Rightarrow>
          (case parser element session of
             Inl e \<Rightarrow> Inl e
           | Inr st \<Rightarrow>
               (case dispatch_children regs (children element) st of
                  Inl e \<Rightarrow> Inl e
                | Inr (obj, _) \<Rightarrow> Inr obj)))"

text \<open>
  The registrations of the module, in the order in which the decorators run: the
  functions from the top of the file to its end, and the decorators of one function
  from the innermost (the last written) to the outermost.
\<close>

definition channel_paths :: "collaborators \<Rightarrow> registration list" where
  "channel_paths c =
     [path ''pubDate'' None (Some ''updated_at'') (parse_datetime c),
      path ''webMaster'' None (Some ''contributors'') (parse_person c),
      path ''managingEditor'' None (Some ''contributors'') (parse_person c),
      path ''category'' None (Some ''categories'') parse_category,
      path ''copyright'' None (Some ''rights'') (parse_text c),
      path ''title'' None None (parse_text c),
      path ''description'' None (Some ''subtitle'') (parse_subtitle c),
      path ''link'' (Some (ATOM_XMLNS_SET c)) (Some ''links'') parse_atom_link,
      path ''link'' None (Some ''links'') (parse_link c),
      path ''generator'' None None (parse_generator c)]"

definition item_paths ::
  "(string \<Rightarrow> string option \<Rightarrow> bool \<Rightarrow> parse_result) \<Rightarrow> collaborators \<Rightarrow> world \<Rightarrow>
     registration list" where
  "item_paths self c w =
     [path ''pubDate'' None (Some ''published_at'') (parse_datetime c),
      path ''author'' None (Some ''authors'') (parse_person c),
      path ''category'' None (Some ''categories'') parse_category,
      path ''title'' None None (parse_text c),
      path ''link'' None (Some ''links'') (parse_link c),
      path ''enclosure'' None (Some ''links'') parse_enclosure,
      path ''source'' None None (parse_source self c w),
      path ''comments'' None (Some ''links'') parse_comments,
      path ''encoded'' (Some [CONTENT_XMLNS c]) (Some ''content'') (parse_content c),
      path ''description'' None (Some ''content'') (parse_content c),
      path ''guid'' None (Some ''id'') parse_guid]"

subsection \<open>The post-pass normaliser\<close>

text \<open>The timestamps an entry carries, the entries of a feed, and the latest of a list.\<close>

definition timestamps_of :: "val option \<Rightarrow> int list" where
  "timestamps_of v = (case v of Some (VTime t) \<Rightarrow> [t] | _ \<Rightarrow> [])"

definition entry_timestamps :: "val \<Rightarrow> int list" where
  "entry_timestamps v =
     (case v of
        VObject entry \<Rightarrow>
          timestamps_of (getattr entry ''published_at'') @ timestamps_of (getattr entry ''updated_at'')
      | _ \<Rightarrow> [])"

fun latest :: "int list \<Rightarrow> int option" where
  "latest [] = None"
| "latest (t # ts) = (case latest ts of None \<Rightarrow> Some t | Some m \<Rightarrow> Some (max t m))"

definition is_self_link :: "val \<Rightarrow> bool" where
  "is_self_link v = (case v of VLink l \<Rightarrow> relation l = Some ''self'' | _ \<Rightarrow> False)"

text \<open>
  Modelled from the spec: \<^verbatim>\<open>make_legal_as_atom\<close> of
  \<^verbatim>\<open>rss_base\<close>, which is not part of this module (section 4.8, and the
  docstring of \<^verbatim>\<open>parse_rss2\<close>). In this order:
  \<^item> an identifier: when none was mapped, the origin URL becomes the identifier (with no
    origin URL there is nothing to derive one from);
  \<^item> a self link: when no link with the relation \<open>self\<close> was mapped, a link with that
    relation pointing at the origin URL is added to the links;
  \<^item> the time of the last update: when none was mapped, the latest timestamp of the
    entries, and the time of the invocation when no entry has a timestamp.
  Nothing else of the feed changes.
\<close>

definition ensure_id :: "entity \<Rightarrow> session \<Rightarrow> entity" where
  "ensure_id feed_data session =
     (case getattr feed_data ''id'' of
        Some _ \<Rightarrow> feed_data
      | None \<Rightarrow>
          (case feed_url session of
             None \<Rightarrow> feed_data
           | Some url \<Rightarrow> setattr feed_data ''id'' (VStr url)))"

definition ensure_self_link :: "entity \<Rightarrow> session \<Rightarrow> entity" where
  "ensure_self_link feed_data session =
     (if list_ex is_self_link (collection feed_data ''links'') then feed_data
      else setattr feed_data ''links''
             (VList (collection feed_data ''links'' @
                     [VLink (Link (feed_url session) (Some ''self'') None)])))"

definition derive_updated_at :: "int \<Rightarrow> entity \<Rightarrow> entity" where
  "derive_updated_at time feed_data =
     (case getattr feed_data ''updated_at'' of
        Some _ \<Rightarrow> feed_data
      | None \<Rightarrow>
          setattr feed_data ''updated_at''
            (VTime (case latest (concat (map entry_timestamps (collection feed_data ''entries''))) of
                      None \<Rightarrow> time
                    | Some t \<Rightarrow> t)))"

definition make_legal_as_atom :: "int \<Rightarrow> entity \<Rightarrow> session \<Rightarrow> entity" where
  "make_legal_as_atom time feed_data session =
     derive_updated_at time (ensure_self_link (ensure_id feed_data session) session)"

subsection \<open>parse\_rss2\<close>

text \<open>
  The loop over the items: \<^verbatim>\<open>entry_list.append(parse_item(item, session))\<close>,
  every item with the session of the channel.
\<close>

fun parse_items :: "registration list \<Rightarrow> element list \<Rightarrow> session \<Rightarrow> error + entity list" where
  "parse_items regs [] session = Inr []"
| "parse_items regs (item # items) session =
     (case ParserBase_call parse_item regs (Some item) session of
        Inl e \<Rightarrow> Inl e
      | Inr entry \<Rightarrow>
          (case parse_items regs items session of
             Inl e \<Rightarrow> Inl e
           | Inr entry_list \<Rightarrow> Inr (entry # entry_list)))"

text \<open>
  The body of \<^verbatim>\<open>parse_rss2\<close>, in two parts. \<open>parse_rss2_mapping\<close> is
  the function up to the assignment of the entries: it returns the feed as mapped and
  the session. \<open>parse_rss2_body\<close> runs \<^verbatim>\<open>make_legal_as_atom\<close> on that
  feed and returns it with the crawler hint \<^verbatim>\<open>None\<close>. \<open>self\<close> stands
  for the function itself where \<^verbatim>\<open>parse_source\<close> calls the parser that
  \<^verbatim>\<open>get_format\<close> returned. \<^verbatim>\<open>channel.findall\<close> raises when
  there is no channel.
\<close>

definition parse_rss2_mapping ::
  "(string \<Rightarrow> string option \<Rightarrow> bool \<Rightarrow> parse_result) \<Rightarrow> collaborators \<Rightarrow> world \<Rightarrow>
     string \<Rightarrow> string option \<Rightarrow> bool \<Rightarrow> error + (entity \<times> session)" where
  "parse_rss2_mapping self c w xml url parse_entry =
     (case fromstring c (normalize_xml_encoding c xml) of
        Inl e \<Rightarrow> Inl e
      | Inr root \<Rightarrow>
          (let channel = find_el root ''channel'';
               default_tzinfo = guess_default_tzinfo c root url;
               session = \<lparr>feed_url = url, default_tz_info = default_tzinfo\<rparr>
           in case ParserBase_call parse_channel (channel_paths c) channel session of
                Inl e \<Rightarrow> Inl e
              | Inr feed_data \<Rightarrow>
                  if parse_entry
                  then (case channel of
                          None \<Rightarrow> Inl AttributeError
                        | Some ch \<Rightarrow>
                            (case parse_items (item_paths self c w) (findall ch ''item'') session of
                               Inl e \<Rightarrow> Inl e
                             | Inr entry_list \<Rightarrow>
                                 Inr (setattr feed_data ''entries'' (VList (map VObject entry_list)),
                                      session)))
                  else Inr (feed_data, session)))"

definition parse_rss2_body ::
  "(string \<Rightarrow> string option \<Rightarrow> bool \<Rightarrow> parse_result) \<Rightarrow> collaborators \<Rightarrow> world \<Rightarrow>
     string \<Rightarrow> string option \<Rightarrow> bool \<Rightarrow> parse_result" where
  "parse_rss2_body self c w xml url parse_entry =
     (case parse_rss2_mapping self c w xml url parse_entry of
        Inl e \<Rightarrow> Inl e
      | Inr (feed_data, session) \<Rightarrow> Inr (make_legal_as_atom (now w) feed_data session, None))"

text \<open>
  \<^verbatim>\<open>parse_rss2(xml, feed_url, parse_entry)\<close>. The function calls itself only
  through \<^verbatim>\<open>parse_source\<close>, with \<^verbatim>\<open>parse_entry=False\<close>, and a
  call with \<^verbatim>\<open>parse_entry=False\<close> visits no item and so calls it no more:
  the recursion is two calls deep. \<open>parse_rss2_nested\<close> is the inner call, whose
  \<open>self\<close> is never reached; the lemma \<open>parse_rss2_unfold\<close> below gives the recursive
  equation of the source.
\<close>

definition parse_rss2_nested ::
  "collaborators \<Rightarrow> world \<Rightarrow> string \<Rightarrow> string option \<Rightarrow> bool \<Rightarrow> parse_result" where
  "parse_rss2_nested c w xml url parse_entry =
     parse_rss2_body (\<lambda>_ _ _. Inl TypeError) c w xml url parse_entry"

definition parse_rss2 ::
  "collaborators \<Rightarrow> world \<Rightarrow> string \<Rightarrow> string option \<Rightarrow> bool \<Rightarrow> parse_result" where
  "parse_rss2 c w xml url parse_entry =
     parse_rss2_body (parse_rss2_nested c w) c w xml url parse_entry"

section \<open>Notions of the specification\<close>





text \<open>
  The source element of an item fails to resolve: the fetch of its URL fails, or the
  format of the fetched document is not detected, or the parser that the detector
  returns fails on the document.
\<close>

definition source_fails :: "collaborators \<Rightarrow> world \<Rightarrow> element \<Rightarrow> bool" where
  "source_fails c w src =
     (case open_url w (get src ''url'') of
        Inl e \<Rightarrow> True
      | Inr doc \<Rightarrow>
          (case get_format c doc of
             Inl e \<Rightarrow> True
           | Inr RSS2 \<Rightarrow> isl (parse_rss2 c w doc (get src ''url'') False)
           | Inr (Sibling p) \<Rightarrow> isl (p doc (get src ''url'') False)))"



section \<open>Example inputs\<close>

text \<open>
  Inputs for the examples below: a session, guid elements, five document trees, and
  collaborators to run the parser on them. The tree parser of the examples knows the
  five documents by name, the date parser knows one date, the text parsers return the
  text of the element as it is, and the scheme of a URL is what stands before its first
  colon; a URL with an opening bracket is one that \<^verbatim>\<open>urlparse\<close> rejects
  with \<^verbatim>\<open>ValueError\<close>. The network is either down (\<open>offline\<close>) or serves
  one document at one URL (\<open>online\<close>).
\<close>

definition example_session :: session where
  "example_session = \<lparr>feed_url = Some ''http://example.com/rss.xml'', default_tz_info = 0\<rparr>"

definition guid_element :: "string option \<Rightarrow> (string \<times> string) list \<Rightarrow> element" where
  "guid_element t attributes = Element ''guid'' None t attributes []"

definition minimal_tree :: element where
  "minimal_tree = Element ''rss'' None None [] [Element ''channel'' None None [] []]"

definition two_titles_tree :: element where
  "two_titles_tree =
     Element ''rss'' None None []
       [Element ''channel'' None None []
          [Element ''title'' None (Some ''First'') [] [],
           Element ''title'' None (Some ''Second'') [] []]]"

definition source_tree :: element where
  "source_tree =
     Element ''rss'' None None []
       [Element ''channel'' None None []
          [Element ''item'' None None []
             [Element ''source'' None (Some ''Other'') [(''url'', ''http://other.example/rss.xml'')] []]]]"

definition self_link_tree :: element where
  "self_link_tree =
     Element ''rss'' None None []
       [Element ''channel'' None None []
          [Element ''link'' (Some ''http://www.w3.org/2005/Atom'') None
             [(''rel'', ''self''), (''href'', ''http://elsewhere.example/feed'')] []]]"

definition dated_item_tree :: element where
  "dated_item_tree =
     Element ''rss'' None None []
       [Element ''channel'' None None []
          [Element ''item'' None None []
             [Element ''pubDate'' None (Some ''Thu, 01 Jan 1970 00:01:40 GMT'') [] []]]]"

definition example_documents :: "(string \<times> element) list" where
  "example_documents =
     [(''minimal'', minimal_tree),
      (''two titles'', two_titles_tree),
      (''source'', source_tree),
      (''self link'', self_link_tree),
      (''dated item'', dated_item_tree)]"

definition example_dates :: "(string \<times> int) list" where
  "example_dates = [(''Thu, 01 Jan 1970 00:01:40 GMT'', 100)]"

definition opaque_parser :: handler where
  "opaque_parser element session = Inr (map_option VOpaque (text' element), session)"

definition example_collaborators :: collaborators where
  "example_collaborators =
     \<lparr>fromstring = (\<lambda>xml. case map_of example_documents xml of
                              None \<Rightarrow> Inl MalformedDocument | Some root \<Rightarrow> Inr root),
      normalize_xml_encoding = (\<lambda>xml. xml),
      guess_default_tzinfo = (\<lambda>root url. 0),
      datetime_parser = (\<lambda>element session.
         case text' element of
           None \<Rightarrow> Inr (None, session)
         | Some t \<Rightarrow> (case map_of example_dates t of
                        None \<Rightarrow> Inl ValueError
                      | Some time \<Rightarrow> Inr (Some (VTime time), session))),
      person_parser = opaque_parser,
      text_parser = opaque_parser,
      subtitle_parser = opaque_parser,
      link_parser = (\<lambda>element session.
         Inr (Some (VLink (Link (text' element) (Some ''alternate'') None)), session)),
      content_parser = opaque_parser,
      ATOM_XMLNS_SET = [''http://www.w3.org/2005/Atom'', ''http://purl.org/atom/ns#''],
      CONTENT_XMLNS = ''http://purl.org/rss/1.0/modules/content/'',
      urlparse_scheme = (\<lambda>t.
         case t of
           None \<Rightarrow> Inr []
         | Some u \<Rightarrow> if CHR ''['' \<in> set u then Inl ValueError
                     else if CHR '':'' \<in> set u then Inr (takeWhile (\<lambda>x. x \<noteq> CHR '':'') u)
                     else Inr []),
      get_format = (\<lambda>xml. Inr RSS2)\<rparr>"

definition offline :: "string option \<Rightarrow> error + string" where
  "offline url = Inl Fetch"

definition online :: "string \<Rightarrow> string option \<Rightarrow> error + string" where
  "online xml url = (if url = Some ''http://other.example/rss.xml'' then Inr xml else Inl Fetch)"

definition example_world :: world where
  "example_world = \<lparr>now = 1000, open_url = offline\<rparr>"

section \<open>Properties\<close>

subsection \<open>GUID\_PATTERN and the canonical form\<close>

















subsection \<open>The handlers of guid, enclosure and comments\<close>

text \<open>
  Claim C9. For a guid element without text, \<^verbatim>\<open>parse_guid\<close> raises
  \<^verbatim>\<open>AttributeError\<close>; for a guid element with text it returns, with the
  session unchanged.
\<close>

theorem parse_guid_requires_text:
  "(text' element = None \<longrightarrow> parse_guid element session = Inl AttributeError) \<and>
   (text' element \<noteq> None \<longrightarrow> (\<exists>v. parse_guid element session = Inr (v, session)))"
  by (auto simp: parse_guid_def)

text \<open>
  A guid element without text, and one with a text that is no identifier.
\<close>

theorem parse_guid_requires_text_witness:
  "parse_guid (guid_element None []) example_session = Inl AttributeError \<and>
   (\<exists>v. parse_guid (guid_element (Some ''not-a-guid-or-url'') []) example_session =
          Inr (v, example_session))"
  using parse_guid_requires_text[of "guid_element None []" example_session]
        parse_guid_requires_text[of "guid_element (Some ''not-a-guid-or-url'') []" example_session]
  by (simp add: guid_element_def)

text \<open>
  Claim C2. For every element, whatever its attributes, the link that
  \<^verbatim>\<open>parse_enclosure\<close> builds has the relation \<open>enclosure\<close>, the URI of the
  attribute \<open>url\<close> and the media type of the attribute \<open>type\<close>; the link that
  \<^verbatim>\<open>parse_comments\<close> builds has the relation \<open>discussion\<close> and the text
  of the element as its URI. Both handlers are registered on the item parser, for the
  elements \<open>enclosure\<close> and \<open>comments\<close>, with the attribute \<open>links\<close>.
\<close>

theorem enclosure_and_comments_relation:
  "(\<exists>l. parse_enclosure element session = Inr (Some (VLink l), session) \<and>
        relation l = Some ''enclosure'' \<and> uri l = get element ''url'' \<and>
        mimetype l = get element ''type'') \<and>
   (\<exists>l. parse_comments element session = Inr (Some (VLink l), session) \<and>
        relation l = Some ''discussion'' \<and> uri l = text' element) \<and>
   path ''enclosure'' None (Some ''links'') parse_enclosure \<in> set (item_paths self c w) \<and>
   path ''comments'' None (Some ''links'') parse_comments \<in> set (item_paths self c w)"
  by (simp add: parse_enclosure_def parse_comments_def item_paths_def)

subsection \<open>The dispatch\<close>

lemma getattr_setattr:
  "getattr (setattr obj a v) b = (if b = a then Some v else getattr obj b)"
  by (simp add: getattr_def setattr_def update_conv')

lemma collection_setattr_other: "a \<noteq> b \<Longrightarrow> collection (setattr obj a v) b = collection obj b"
  by (simp add: collection_def getattr_setattr)

lemma getattr_apply_field_other: "a \<noteq> b \<Longrightarrow> getattr (apply_field obj a v) b = getattr obj b"
  by (simp add: apply_field_def getattr_setattr split: option.splits)


lemma dispatch_child_frame:
  "dispatch_child regs child (obj, s) = Inr (obj', s') \<Longrightarrow>
   \<forall>r\<in>set regs. matches r child \<longrightarrow> attr_name r \<noteq> b \<Longrightarrow>
   getattr obj' b = getattr obj b"
proof (induction regs arbitrary: obj s)
  case Nil
  then show ?case by simp
next
  case (Cons r rs)
  show ?case
  proof (cases "matches r child")
    case True
    with Cons.prems(1) obtain v s1 where h: "handler r child s = Inr (v, s1)"
      and d: "dispatch_child rs child (apply_field obj (attr_name r) v, s1) = Inr (obj', s')"
      by (auto split: sum.splits)
    from Cons.prems(2) True have "attr_name r \<noteq> b" by simp
    moreover from Cons.IH[OF d] Cons.prems(2)
    have "getattr obj' b = getattr (apply_field obj (attr_name r) v) b" by simp
    ultimately show ?thesis by (simp add: getattr_apply_field_other)
  next
    case False
    with Cons show ?thesis by simp
  qed
qed

lemma dispatch_children_frame:
  "dispatch_children regs cs (obj, s) = Inr (obj', s') \<Longrightarrow>
   \<forall>x\<in>set cs. \<forall>r\<in>set regs. matches r x \<longrightarrow> attr_name r \<noteq> b \<Longrightarrow>
   getattr obj' b = getattr obj b"
proof (induction cs arbitrary: obj s)
  case Nil
  then show ?case by simp
next
  case (Cons x cs)
  from Cons.prems(1) obtain obj1 s1 where 1: "dispatch_child regs x (obj, s) = Inr (obj1, s1)"
    and 2: "dispatch_children regs cs (obj1, s1) = Inr (obj', s')"
    by (auto split: sum.splits)
  from dispatch_child_frame[OF 1] Cons.prems(2) have "getattr obj1 b = getattr obj b" by simp
  moreover from Cons.IH[OF 2] Cons.prems(2) have "getattr obj' b = getattr obj1 b" by simp
  ultimately show ?case by simp
qed






lemma matches_path:
  "matches (path name nss attr h) child \<longleftrightarrow>
     (name = tag child \<and>
      (case nss of None \<Rightarrow> namespace child = None
       | Some l \<Rightarrow> (case namespace child of None \<Rightarrow> False | Some ns \<Rightarrow> ns \<in> set l)))"
  by (simp add: matches_def path_def)





subsection \<open>parse\_rss2 and its parts\<close>

lemma parse_rss2_mapping_no_entries:
  "parse_rss2_mapping self c w xml url False = parse_rss2_mapping self' c w' xml url False"
  by (simp add: parse_rss2_mapping_def Let_def split: sum.splits)

lemma parse_rss2_no_entries:
  "parse_rss2 c w xml url False = parse_rss2_nested c w xml url False"
  by (simp add: parse_rss2_def parse_rss2_nested_def[of c w xml url False] parse_rss2_body_def
      parse_rss2_mapping_no_entries[of "parse_rss2_nested c w" c w xml url "\<lambda>_ _ _. Inl TypeError" w])

lemma parse_source_self:
  "parse_source (parse_rss2 c w) c w = parse_source (parse_rss2_nested c w) c w"
  unfolding parse_source_def parse_rss2_no_entries by (rule refl)

lemma item_paths_self:
  "item_paths (parse_rss2 c w) c w = item_paths (parse_rss2_nested c w) c w"
  by (simp add: item_paths_def parse_source_self)

lemma parse_rss2_unfold:
  "parse_rss2 c w xml url parse_entry = parse_rss2_body (parse_rss2 c w) c w xml url parse_entry"
  unfolding parse_rss2_def[of c w xml url parse_entry] parse_rss2_body_def parse_rss2_mapping_def
    item_paths_self
  by (rule refl)

lemma getattr_make_legal_as_atom:
  "name \<noteq> ''id'' \<Longrightarrow> name \<noteq> ''links'' \<Longrightarrow> name \<noteq> ''updated_at'' \<Longrightarrow>
   getattr (make_legal_as_atom time feed_data session) name = getattr feed_data name"
  by (simp add: make_legal_as_atom_def derive_updated_at_def ensure_self_link_def ensure_id_def
      getattr_setattr split: option.splits)

lemma parse_source_fails:
  assumes "source_fails c w src"
  shows "isl (parse_source (parse_rss2_nested c w) c w src s)"
proof (cases "open_url w (get src ''url'')")
  case (Inl e)
  then show ?thesis by (simp add: parse_source_def)
next
  case (Inr doc)
  note doc = this
  show ?thesis
  proof (cases "get_format c doc")
    case (Inl e)
    with doc show ?thesis by (simp add: parse_source_def)
  next
    case (Inr parser)
    show ?thesis
    proof (cases parser)
      case RSS2
      with assms doc Inr have "isl (parse_rss2_nested c w doc (get src ''url'') False)"
        by (simp add: source_fails_def parse_rss2_no_entries)
      with doc Inr RSS2 show ?thesis
        by (auto simp: parse_source_def isl_def)
    next
      case (Sibling p)
      with assms doc Inr have "isl (p doc (get src ''url'') False)"
        by (simp add: source_fails_def)
      with doc Inr Sibling show ?thesis
        by (auto simp: parse_source_def isl_def)
    qed
  qed
qed

lemma dispatch_child_fails:
  "r \<in> set regs \<Longrightarrow> matches r child \<Longrightarrow> \<forall>s. isl (handler r child s) \<Longrightarrow>
   isl (dispatch_child regs child st)"
proof (induction regs arbitrary: st)
  case Nil
  then show ?case by simp
next
  case (Cons r' rs)
  obtain obj s where st: "st = (obj, s)" by (cases st)
  show ?case
  proof (cases "matches r' child")
    case True
    show ?thesis
    proof (cases "handler r' child s")
      case (Inl e)
      with True st show ?thesis by simp
    next
      case (Inr p)
      with Cons.prems have "r' \<noteq> r" by (metis sum.disc(2))
      with Cons.prems have "r \<in> set rs" by simp
      from Cons.IH[OF this Cons.prems(2,3)] Inr True st show ?thesis
        by (simp split: prod.splits)
    qed
  next
    case False
    with Cons.prems have "r \<in> set rs" by auto
    from Cons.IH[OF this Cons.prems(2,3)] False st show ?thesis by simp
  qed
qed

lemma dispatch_children_fails:
  "child \<in> set cs \<Longrightarrow> \<forall>st. isl (dispatch_child regs child st) \<Longrightarrow>
   isl (dispatch_children regs cs st)"
proof (induction cs arbitrary: st)
  case Nil
  then show ?case by simp
next
  case (Cons x cs)
  show ?case
  proof (cases "dispatch_child regs x st")
    case (Inl e)
    then show ?thesis by simp
  next
    case (Inr st')
    with Cons.prems have "child \<in> set cs" by (metis set_ConsD sum.disc(2))
    from Cons.IH[OF this Cons.prems(2)] Inr show ?thesis by simp
  qed
qed

lemma parse_items_fails:
  "item \<in> set items \<Longrightarrow> \<forall>s. isl (ParserBase_call parse_item regs (Some item) s) \<Longrightarrow>
   isl (parse_items regs items session)"
proof (induction items)
  case Nil
  then show ?case by simp
next
  case (Cons x items)
  show ?case
  proof (cases "ParserBase_call parse_item regs (Some x) session")
    case (Inl e)
    then show ?thesis by simp
  next
    case (Inr entry)
    with Cons.prems have "item \<in> set items" by (metis set_ConsD sum.disc(2))
    from Cons.IH[OF this Cons.prems(2)] Inr show ?thesis
      by (auto simp: isl_def)
  qed
qed

text \<open>
  Claim C5. When an item of the channel has a source element whose resolution fails,
  \<^verbatim>\<open>parse_rss2\<close> with \<^verbatim>\<open>parse_entry=True\<close> raises: it returns no
  feed.
\<close>

theorem source_failure_aborts_parse:
  assumes "fromstring c (normalize_xml_encoding c xml) = Inr root"
    and "find_el root ''channel'' = Some channel"
    and "item \<in> set (findall channel ''item'')"
    and "src \<in> set (children item)"
    and "tag src = ''source''"
    and "namespace src = None"
    and "source_fails c w src"
  shows "\<exists>e. parse_rss2 c w xml url True = Inl e"
proof -
  let ?regs = "item_paths (parse_rss2_nested c w) c w"
  let ?r = "path ''source'' None None (parse_source (parse_rss2_nested c w) c w)"
  have r: "?r \<in> set ?regs" by (simp add: item_paths_def)
  have m: "matches ?r src" using assms(5,6) by (simp add: matches_path)
  have h: "\<forall>s. isl (handler ?r src s)"
    using parse_source_fails[OF assms(7)] by (simp add: path_def)
  have "\<forall>st. isl (dispatch_child ?regs src st)"
    using dispatch_child_fails[OF r m h] by simp
  then have d: "isl (dispatch_children ?regs (children item) st)" for st
    using dispatch_children_fails[OF assms(4)] by simp
  have "isl (ParserBase_call parse_item ?regs (Some item) s)" for s
    using d[of "(Entry, s)"] by (auto simp: ParserBase_call_def parse_item_def isl_def)
  then have "isl (parse_items ?regs (findall channel ''item'') s)" for s
    using parse_items_fails[OF assms(3)] by simp
  from this[of "\<lparr>feed_url = url, default_tz_info = guess_default_tzinfo c root url\<rparr>"]
  have "isl (parse_rss2_mapping (parse_rss2_nested c w) c w xml url True)"
    using assms(1,2) by (auto simp: parse_rss2_mapping_def Let_def isl_def split: sum.splits)
  then show ?thesis
    by (auto simp: parse_rss2_def parse_rss2_body_def isl_def)
qed

text \<open>
  The example document with an item that has a source element, parsed while the network
  is down: the fetch fails, and so does the parse.
\<close>

theorem source_failure_aborts_parse_witness:
  "source_fails example_collaborators example_world
     (Element ''source'' None (Some ''Other'') [(''url'', ''http://other.example/rss.xml'')] []) \<and>
   (\<exists>e. parse_rss2 example_collaborators example_world ''source''
          (Some ''http://example.com/rss.xml'') True = Inl e)"
proof -
  let ?src = "Element ''source'' None (Some ''Other'') [(''url'', ''http://other.example/rss.xml'')] []"
  let ?item = "Element ''item'' None None [] [?src]"
  let ?channel = "Element ''channel'' None None [] [?item]"
  have 1: "fromstring example_collaborators (normalize_xml_encoding example_collaborators ''source'')
             = Inr source_tree"
    by (simp add: example_collaborators_def example_documents_def)
  have 2: "find_el source_tree ''channel'' = Some ?channel"
    by (simp add: source_tree_def find_el_def findall_def)
  have 3: "?item \<in> set (findall ?channel ''item'')"
    by (simp add: findall_def)
  have 4: "?src \<in> set (children ?item)" by simp
  have 5: "source_fails example_collaborators example_world ?src"
    by (simp add: source_fails_def example_world_def offline_def)
  from source_failure_aborts_parse[OF 1 2 3 4 _ _ 5] 5 show ?thesis by simp
qed

text \<open>
  Claim C3. When the document has a channel without item children and the mapping of
  the channel raises nothing, \<^verbatim>\<open>parse_rss2\<close> with
  \<^verbatim>\<open>parse_entry=True\<close> returns a feed whose attribute \<open>entries\<close> is
  assigned and holds the empty list.
\<close>

theorem zero_items_entries_empty:
  assumes "fromstring c (normalize_xml_encoding c xml) = Inr root"
    and "find_el root ''channel'' = Some channel"
    and "findall channel ''item'' = []"
    and "ParserBase_call parse_channel (channel_paths c) (Some channel)
           \<lparr>feed_url = url, default_tz_info = guess_default_tzinfo c root url\<rparr> = Inr feed_data"
  shows "\<exists>feed. parse_rss2 c w xml url True = Inr (feed, None) \<and>
                getattr feed ''entries'' = Some (VList [])"
  using assms
  by (simp add: parse_rss2_def parse_rss2_body_def parse_rss2_mapping_def
      getattr_make_legal_as_atom getattr_setattr)

text \<open>The minimal document: a channel without children.\<close>

theorem zero_items_entries_empty_witness:
  "\<exists>feed. parse_rss2 example_collaborators example_world ''minimal''
            (Some ''http://example.com/rss.xml'') True = Inr (feed, None) \<and>
          getattr feed ''entries'' = Some (VList [])"
proof -
  let ?channel = "Element ''channel'' None None [] []"
  have 1: "fromstring example_collaborators (normalize_xml_encoding example_collaborators ''minimal'')
             = Inr minimal_tree"
    by (simp add: example_collaborators_def example_documents_def)
  have 2: "find_el minimal_tree ''channel'' = Some ?channel"
    by (simp add: minimal_tree_def find_el_def findall_def)
  have 3: "findall ?channel ''item'' = []"
    by (simp add: findall_def)
  have 4: "ParserBase_call parse_channel (channel_paths example_collaborators) (Some ?channel)
           \<lparr>feed_url = Some ''http://example.com/rss.xml'',
            default_tz_info = guess_default_tzinfo example_collaborators minimal_tree
              (Some ''http://example.com/rss.xml'')\<rparr> = Inr Feed"
    by (simp add: ParserBase_call_def parse_channel_def)
  from zero_items_entries_empty[OF 1 2 3 4] show ?thesis .
qed

subsection \<open>The generator handler\<close>



subsection \<open>Repeated elements\<close>



subsection \<open>The post-pass normaliser\<close>

lemmas example_eval =
  parse_rss2_def parse_rss2_nested_def parse_rss2_body_def parse_rss2_mapping_def
  example_collaborators_def example_documents_def example_dates_def opaque_parser_def
  example_world_def example_session_def
  minimal_tree_def two_titles_tree_def source_tree_def self_link_tree_def dated_item_tree_def
  offline_def online_def
  find_el_def findall_def ParserBase_call_def parse_channel_def parse_item_def
  channel_paths_def item_paths_def path_def matches_def
  parse_datetime_def parse_person_def parse_category_def parse_text_def parse_subtitle_def
  parse_atom_link_def parse_link_def parse_generator_def parse_enclosure_def parse_source_def
  parse_comments_def parse_content_def
  get_def get_default_def Feed_def Entry_def
  apply_field_def multiple_def collection_def getattr_def setattr_def
  make_legal_as_atom_def ensure_id_def ensure_self_link_def derive_updated_at_def
  is_self_link_def entry_timestamps_def timestamps_of_def


lemma getattr_Feed: "getattr Feed name = None"
  by (simp add: Feed_def getattr_def)


lemma id_make_legal_as_atom:
  "getattr (make_legal_as_atom time feed_data session) ''id'' =
     (case getattr feed_data ''id'' of
        Some i \<Rightarrow> Some i
      | None \<Rightarrow> map_option VStr (feed_url session))"
  by (simp add: make_legal_as_atom_def derive_updated_at_def ensure_self_link_def ensure_id_def
      getattr_setattr split: option.splits)

lemma links_ensure_id: "collection (ensure_id feed_data session) ''links'' = collection feed_data ''links''"
  by (simp add: ensure_id_def collection_setattr_other split: option.splits)



lemma updated_at_make_legal_as_atom:
  "getattr (make_legal_as_atom time feed_data session) ''updated_at'' =
     (case getattr feed_data ''updated_at'' of
        Some t \<Rightarrow> Some t
      | None \<Rightarrow>
          Some (VTime (case latest (concat (map entry_timestamps (collection feed_data ''entries''))) of
                         None \<Rightarrow> time
                       | Some t \<Rightarrow> t)))"
proof -
  let ?fd = "ensure_self_link (ensure_id feed_data session) session"
  have 1: "getattr ?fd ''updated_at'' = getattr feed_data ''updated_at''"
    by (simp add: ensure_self_link_def ensure_id_def getattr_setattr split: option.splits)
  have 2: "collection ?fd ''entries'' = collection feed_data ''entries''"
    by (simp add: ensure_self_link_def ensure_id_def collection_setattr_other split: option.splits)
  show ?thesis
    by (simp add: make_legal_as_atom_def derive_updated_at_def[of time ?fd] 1 2 getattr_setattr
        split: option.splits)
qed


lemma channel_dispatch_frame:
  assumes "ParserBase_call parse_channel (channel_paths c) channel session = Inr feed_data"
    and "name \<notin> set (map attr_name (channel_paths c))"
  shows "getattr feed_data name = None"
proof -
  from assms(1) obtain ch s where ch: "channel = Some ch"
    and d: "dispatch_children (channel_paths c) (children ch) (Feed, session) = Inr (feed_data, s)"
    by (auto simp: ParserBase_call_def parse_channel_def split: option.splits sum.splits)
  from assms(2) have "\<forall>x\<in>set (children ch). \<forall>r\<in>set (channel_paths c). matches r x \<longrightarrow> attr_name r \<noteq> name"
    by auto
  from dispatch_children_frame[OF d this] show ?thesis by (simp add: getattr_Feed)
qed

lemma channel_attr_names:
  "map attr_name (channel_paths c) =
     [''updated_at'', ''contributors'', ''contributors'', ''categories'', ''rights'', ''title'',
      ''subtitle'', ''links'', ''links'', ''generator'']"
  by (simp add: channel_paths_def path_def)






subsection \<open>The two modes of parse\_rss2\<close>

lemma make_legal_as_atom_entries_frame:
  assumes "name \<noteq> ''entries''" "name \<noteq> ''updated_at''"
  shows "getattr (make_legal_as_atom time (setattr feed_data ''entries'' v) session) name =
         getattr (make_legal_as_atom time feed_data session) name"
proof -
  have i: "getattr (setattr feed_data ''entries'' v) ''id'' = getattr feed_data ''id''"
    by (simp add: getattr_setattr)
  have l: "collection (setattr feed_data ''entries'' v) ''links'' = collection feed_data ''links''"
    by (simp add: collection_setattr_other)
  show ?thesis
  proof (cases "name = ''id''")
    case True
    then show ?thesis by (simp add: id_make_legal_as_atom i)
  next
    case False
    note not_id = this
    show ?thesis
    proof (cases "name = ''links''")
      case True
      have "getattr (make_legal_as_atom time obj session) ''links'' =
              (if list_ex is_self_link (collection obj ''links'') then getattr obj ''links''
               else Some (VList (collection obj ''links'' @
                                  [VLink (Link (feed_url session) (Some ''self'') None)])))" for obj
        by (simp add: make_legal_as_atom_def derive_updated_at_def ensure_self_link_def
            links_ensure_id getattr_setattr split: option.splits)
           (simp add: ensure_id_def getattr_setattr split: option.splits)
      with True l show ?thesis by (simp add: getattr_setattr)
    next
      case False
      with not_id assms show ?thesis
        by (simp add: getattr_make_legal_as_atom getattr_setattr)
    qed
  qed
qed

lemma parse_rss2_mapping_modes:
  assumes "parse_rss2_mapping self c w xml url True = Inr (mapped, session)"
  shows "\<exists>feed_data v. parse_rss2_mapping self c w xml url False = Inr (feed_data, session) \<and>
           mapped = setattr feed_data ''entries'' v"
  using assms
  by (auto simp: parse_rss2_mapping_def Let_def split: sum.splits option.splits)

lemma parse_rss2_mapping_no_entries_attr:
  assumes "parse_rss2_mapping self c w xml url False = Inr (feed_data, session)"
  shows "getattr feed_data ''entries'' = None"
proof -
  from assms obtain root where root: "fromstring c (normalize_xml_encoding c xml) = Inr root"
    by (auto simp: parse_rss2_mapping_def split: sum.splits)
  let ?s = "\<lparr>feed_url = url, default_tz_info = guess_default_tzinfo c root url\<rparr>"
  from assms root have "ParserBase_call parse_channel (channel_paths c) (find_el root ''channel'') ?s = Inr feed_data"
    by (auto simp: parse_rss2_mapping_def Let_def split: sum.splits)
  from channel_dispatch_frame[OF this, of "''entries''"] show ?thesis
    by (simp add: channel_attr_names)
qed

text \<open>
  Claim C10, as stated, fails: in the document whose only date is that of an item, the
  time of the last update of the feed is the date of the item with
  \<^verbatim>\<open>parse_entry=True\<close> and the time of the invocation with
  \<^verbatim>\<open>parse_entry=False\<close>.
\<close>

theorem parse_entry_modes_counterexample:
  "\<exists>feed_t feed_f.
     parse_rss2 example_collaborators example_world ''dated item''
       (Some ''http://example.com/rss.xml'') True = Inr (feed_t, None) \<and>
     parse_rss2 example_collaborators example_world ''dated item''
       (Some ''http://example.com/rss.xml'') False = Inr (feed_f, None) \<and>
     getattr feed_t ''updated_at'' = Some (VTime 100) \<and>
     getattr feed_f ''updated_at'' = Some (VTime 1000)"
proof -
  let ?links = "VList [VLink (Link (Some ''http://example.com/rss.xml'') (Some ''self'') None)]"
  let ?feed_t = "Entity ''Feed''
       [(''entries'', VList [VObject (Entity ''Entry'' [(''published_at'', VTime 100)])]),
        (''id'', VStr ''http://example.com/rss.xml''), (''links'', ?links),
        (''updated_at'', VTime 100)]"
  let ?feed_f = "Entity ''Feed''
       [(''id'', VStr ''http://example.com/rss.xml''), (''links'', ?links),
        (''updated_at'', VTime 1000)]"
  have "parse_rss2 example_collaborators example_world ''dated item''
       (Some ''http://example.com/rss.xml'') True = Inr (?feed_t, None)"
    by (simp add: example_eval)
  moreover have "parse_rss2 example_collaborators example_world ''dated item''
       (Some ''http://example.com/rss.xml'') False = Inr (?feed_f, None)"
    by (simp add: example_eval)
  moreover have "getattr ?feed_t ''updated_at'' = Some (VTime 100)"
    "getattr ?feed_f ''updated_at'' = Some (VTime 1000)"
    by (simp_all add: getattr_def)
  ultimately show ?thesis by (intro exI conjI)
qed

text \<open>
  Claim C10, amended. With \<^verbatim>\<open>parse_entry=False\<close> the attribute \<open>entries\<close> of
  the returned feed is never assigned, and the result does not depend on the network: no
  item is visited, so no source is fetched. When the parse with
  \<^verbatim>\<open>parse_entry=True\<close> returns a feed, the parse with
  \<^verbatim>\<open>parse_entry=False\<close> returns one too, and the two feeds agree on every
  attribute but \<open>entries\<close> and \<open>updated_at\<close>; the time of the last update of the feed
  without entries is that of the other feed or the time of the invocation.
\<close>

theorem parse_entry_false_frame:
  "(\<forall>feed hint. parse_rss2 c w xml url False = Inr (feed, hint) \<longrightarrow>
      getattr feed ''entries'' = None \<and> hint = None) \<and>
   parse_rss2 c (w\<lparr>open_url := net\<rparr>) xml url False = parse_rss2 c w xml url False \<and>
   (\<forall>feed_t hint_t. parse_rss2 c w xml url True = Inr (feed_t, hint_t) \<longrightarrow>
      (\<exists>feed_f. parse_rss2 c w xml url False = Inr (feed_f, None) \<and>
         (\<forall>name. name \<noteq> ''entries'' \<and> name \<noteq> ''updated_at'' \<longrightarrow>
                   getattr feed_f name = getattr feed_t name) \<and>
         (getattr feed_f ''updated_at'' = getattr feed_t ''updated_at'' \<or>
          getattr feed_f ''updated_at'' = Some (VTime (now w)))))"
proof (intro conjI allI impI)
  fix feed hint
  assume a: "parse_rss2 c w xml url False = Inr (feed, hint)"
  then obtain fd s where m: "parse_rss2_mapping (parse_rss2_nested c w) c w xml url False = Inr (fd, s)"
    and f: "feed = make_legal_as_atom (now w) fd s" and h: "hint = None"
    by (auto simp: parse_rss2_def parse_rss2_body_def split: sum.splits)
  from parse_rss2_mapping_no_entries_attr[OF m] f
  show "getattr feed ''entries'' = None" by (simp add: getattr_make_legal_as_atom)
  from h show "hint = None" .
next
  show "parse_rss2 c (w\<lparr>open_url := net\<rparr>) xml url False = parse_rss2 c w xml url False"
    using parse_rss2_mapping_no_entries[of "parse_rss2_nested c (w\<lparr>open_url := net\<rparr>)" c
        "w\<lparr>open_url := net\<rparr>" xml url "parse_rss2_nested c w" w]
    by (simp add: parse_rss2_def parse_rss2_body_def split: sum.splits)
next
  fix feed_t hint_t
  assume a: "parse_rss2 c w xml url True = Inr (feed_t, hint_t)"
  then obtain mapped s where mt: "parse_rss2_mapping (parse_rss2_nested c w) c w xml url True = Inr (mapped, s)"
    and ft: "feed_t = make_legal_as_atom (now w) mapped s"
    by (auto simp: parse_rss2_def parse_rss2_body_def split: sum.splits)
  from parse_rss2_mapping_modes[OF mt] obtain fd v where
    mf: "parse_rss2_mapping (parse_rss2_nested c w) c w xml url False = Inr (fd, s)"
    and mapped: "mapped = setattr fd ''entries'' v"
    by blast
  let ?feed_f = "make_legal_as_atom (now w) fd s"
  from mf have p: "parse_rss2 c w xml url False = Inr (?feed_f, None)"
    by (simp add: parse_rss2_def parse_rss2_body_def)
  have frame: "\<forall>name. name \<noteq> ''entries'' \<and> name \<noteq> ''updated_at'' \<longrightarrow>
                   getattr ?feed_f name = getattr feed_t name"
    by (simp add: ft mapped make_legal_as_atom_entries_frame)
  have e: "collection fd ''entries'' = []"
    using parse_rss2_mapping_no_entries_attr[OF mf] by (simp add: collection_def)
  have u: "getattr ?feed_f ''updated_at'' = getattr feed_t ''updated_at'' \<or>
          getattr ?feed_f ''updated_at'' = Some (VTime (now w))"
    by (cases "getattr fd ''updated_at''")
       (simp_all add: ft mapped updated_at_make_legal_as_atom getattr_setattr e)
  from p frame u
  show "\<exists>feed_f. parse_rss2 c w xml url False = Inr (feed_f, None) \<and>
         (\<forall>name. name \<noteq> ''entries'' \<and> name \<noteq> ''updated_at'' \<longrightarrow>
                   getattr feed_f name = getattr feed_t name) \<and>
         (getattr feed_f ''updated_at'' = getattr feed_t ''updated_at'' \<or>
          getattr feed_f ''updated_at'' = Some (VTime (now w)))"
    by blast
qed

text \<open>
  The document with two titles in both modes: without entries the attribute is absent,
  with entries it holds the empty list, and the title, the identifier and the links are
  the same.
\<close>

theorem parse_entry_false_frame_witness:
  "\<exists>feed_t feed_f.
     parse_rss2 example_collaborators example_world ''two titles''
       (Some ''http://example.com/rss.xml'') True = Inr (feed_t, None) \<and>
     parse_rss2 example_collaborators example_world ''two titles''
       (Some ''http://example.com/rss.xml'') False = Inr (feed_f, None) \<and>
     parse_rss2 example_collaborators (example_world\<lparr>open_url := online ''minimal''\<rparr>) ''two titles''
       (Some ''http://example.com/rss.xml'') False = Inr (feed_f, None) \<and>
     getattr feed_t ''entries'' = Some (VList []) \<and>
     getattr feed_f ''entries'' = None \<and>
     getattr feed_f ''title'' = getattr feed_t ''title'' \<and>
     getattr feed_f ''id'' = getattr feed_t ''id'' \<and>
     getattr feed_f ''links'' = getattr feed_t ''links''"
proof -
  let ?c = example_collaborators and ?w = example_world
  let ?url = "Some ''http://example.com/rss.xml''"
  let ?feed_t = "Entity ''Feed''
       [(''title'', VOpaque ''Second''), (''entries'', VList []),
        (''id'', VStr ''http://example.com/rss.xml''),
        (''links'', VList [VLink (Link (Some ''http://example.com/rss.xml'') (Some ''self'') None)]),
        (''updated_at'', VTime 1000)]"
  have t: "parse_rss2 ?c ?w ''two titles'' ?url True = Inr (?feed_t, None)"
    by (simp add: example_eval)
  have et: "getattr ?feed_t ''entries'' = Some (VList [])"
    by (simp add: getattr_def)
  note fr = parse_entry_false_frame[of ?c ?w "''two titles''" ?url "online ''minimal''"]
  note fr1 = fr[THEN conjunct1]
  note fr2 = fr[THEN conjunct2, THEN conjunct1]
  note fr3 = fr[THEN conjunct2, THEN conjunct2, rule_format, OF t]
  from fr3 obtain feed_f where f: "parse_rss2 ?c ?w ''two titles'' ?url False = Inr (feed_f, None)"
    and n: "\<forall>name. name \<noteq> ''entries'' \<and> name \<noteq> ''updated_at'' \<longrightarrow>
                   getattr feed_f name = getattr ?feed_t name"
    by (elim exE conjE)
  from fr1[rule_format, OF f] have ef: "getattr feed_f ''entries'' = None" by (rule conjunct1)
  from fr2 f have o: "parse_rss2 ?c (?w\<lparr>open_url := online ''minimal''\<rparr>) ''two titles'' ?url False
      = Inr (feed_f, None)"
    by (rule ssubst)
  from n have "getattr feed_f ''title'' = getattr ?feed_t ''title''"
    "getattr feed_f ''id'' = getattr ?feed_t ''id''"
    "getattr feed_f ''links'' = getattr ?feed_t ''links''"
    by simp_all
  with t f o et ef show ?thesis by (intro exI conjI)
qed

subsection \<open>Two invocations\<close>












end
